theory Spec2Isabelle
  imports Main "HOL-Library.Multiset"
begin

section \<open>Outbound HTTP calls\<close>

text \<open>
  The handlers of \<^verbatim>\<open>server.js\<close> call two remote services through \<^verbatim>\<open>axios.get\<close>.
  Each handler of the model takes the outcome of the calls it may make as an argument and
  returns, beside its response and the new state, the list of the calls it really made,
  in the order of the source.
\<close>

datatype outbound =
    Geo_get "string option"
  | Github_user
  | Github_repos_100
  | Github_repos_updated_10
  | Github_events_100

section \<open>The visitors table\<close>

text \<open>
  A row of \<^verbatim>\<open>visitors\<close>. The columns are TEXT and nullable: \<open>None\<close> is NULL, which is
  what the driver binds for a JavaScript \<^verbatim>\<open>undefined\<close>. The columns \<^verbatim>\<open>id\<close> and
  \<^verbatim>\<open>timestamp\<close> are filled by the store and read by no query of \<^verbatim>\<open>/api/visitors\<close>;
  the table is the list of its rows in insertion order.
\<close>

record visitor =
  ip :: "string option"
  user_agent :: string
  path :: string
  country :: "string option"
  city :: "string option"

text \<open>
  One step of a grouped count, and of the JavaScript
  \<^verbatim>\<open>languages[k] = (languages[k] || 0) + 1\<close>: the count of an existing key is incremented
  in place, a new key is appended with count 1.
\<close>

fun incr_key :: "string \<Rightarrow> (string \<times> nat) list \<Rightarrow> (string \<times> nat) list" where
  "incr_key k [] = [(k, 1)]"
| "incr_key k ((k', n) # gs) =
     (if k = k' then (k', Suc n) # gs else (k', n) # incr_key k gs)"

text \<open>\<^verbatim>\<open>SELECT COUNT(*) as totalViews FROM visitors\<close>\<close>

definition count_totalViews :: "visitor list \<Rightarrow> nat" where
  "count_totalViews rows = length rows"

text \<open>\<^verbatim>\<open>SELECT COUNT(DISTINCT ip) as uniqueVisitors FROM visitors\<close>: NULLs are not counted.\<close>

definition count_uniqueVisitors :: "visitor list \<Rightarrow> nat" where
  "count_uniqueVisitors rows = length (remdups (List.map_filter ip rows))"

text \<open>
  \<^verbatim>\<open>SELECT country, COUNT(*) as count FROM visitors WHERE country != "Unknown"
  GROUP BY country ORDER BY count DESC LIMIT 10\<close>.
  The comparison with NULL is not true, so rows with a NULL country are dropped by the
  WHERE clause. SQL leaves the order of groups with equal counts open, and with it which
  of them \<^verbatim>\<open>LIMIT 10\<close> keeps; the model lists them in order of first occurrence. The
  properties proved below hold for any such order, and the examples have no two groups
  with the same count.
\<close>

definition where_country_known :: "visitor list \<Rightarrow> string list" where
  "where_country_known rows =
     filter (\<lambda>c. c \<noteq> ''Unknown'') (List.map_filter country rows)"

definition group_by_country :: "string list \<Rightarrow> (string \<times> nat) list" where
  "group_by_country cs = fold incr_key cs []"

definition order_by_count_desc :: "(string \<times> nat) list \<Rightarrow> (string \<times> nat) list" where
  "order_by_count_desc gs = sort_key (\<lambda>g. - int (snd g)) gs"

definition select_countries :: "visitor list \<Rightarrow> (string \<times> nat) list" where
  "select_countries rows =
     take 10 (order_by_count_desc (group_by_country (where_country_known rows)))"

section \<open>GET /api/visitors\<close>

record visit_request =
  x_forwarded_for :: "string option"
  remoteAddress :: "string option"
  user_agent_header :: "string option"
  query_path :: "string option"

text \<open>\<^verbatim>\<open>v || d\<close> on a string that may be undefined: the empty string is falsy too.\<close>

definition or_default :: "string option \<Rightarrow> string \<Rightarrow> string" where
  "or_default v d = (case v of None \<Rightarrow> d | Some s \<Rightarrow> if s = [] then d else s)"

text \<open>\<^verbatim>\<open>req.headers['x-forwarded-for']?.split(',')[0] || req.socket.remoteAddress\<close>\<close>

definition client_ip :: "visit_request \<Rightarrow> string option" where
  "client_ip req =
     (case x_forwarded_for req of
        None \<Rightarrow> remoteAddress req
      | Some h \<Rightarrow>
          (let first = takeWhile (\<lambda>ch. ch \<noteq> CHR '','') h
           in if first = [] then remoteAddress req else Some first))"

text \<open>
  What \<^verbatim>\<open>axios.get\<close> on the geolocation service does: it throws (network error or a
  status outside 2xx), or it returns a response whose \<^verbatim>\<open>data\<close> is absent or an object
  with the fields the handler reads.
\<close>

record geo_data =
  status :: string
  geo_country :: "string option"
  geo_city :: "string option"

datatype geo_outcome = Geo_throws | Geo_response "geo_data option"

text \<open>
  The inner \<^verbatim>\<open>try\<close> block of the handler: the pair \<open>(country, city)\<close> after it and the
  calls made. Its \<^verbatim>\<open>catch\<close> block writes a line to the console and nothing else.
\<close>

definition geo_lookup ::
  "string option \<Rightarrow> geo_outcome \<Rightarrow> (string option \<times> string option) \<times> outbound list" where
  "geo_lookup addr geo =
     (if addr \<noteq> Some ''::1'' \<and> addr \<noteq> Some ''127.0.0.1'' then
        (case geo of
           Geo_throws \<Rightarrow> ((Some ''Unknown'', Some ''Unknown''), [Geo_get addr])
         | Geo_response None \<Rightarrow> ((Some ''Unknown'', Some ''Unknown''), [Geo_get addr])
         | Geo_response (Some d) \<Rightarrow>
             (if status d = ''success''
              then ((geo_country d, geo_city d), [Geo_get addr])
              else ((Some ''Unknown'', Some ''Unknown''), [Geo_get addr])))
      else ((Some ''Unknown'', Some ''Unknown''), []))"

text \<open>
  What the store does for this request: whether the INSERT and each of the three SELECTs
  calls back with an error.
\<close>

record db_outcome =
  insert_err :: bool
  totalViews_err :: bool
  uniqueVisitors_err :: bool
  countries_err :: bool

record visitors_body =
  totalViews :: nat
  uniqueVisitors :: nat
  countries :: "(string \<times> nat) list"
  recentVisit :: "string option \<times> string option \<times> int"

datatype visitors_response = Visitors_json visitors_body | Visitors_500 string

text \<open>
  The handler. The three SELECTs run only in the callback of a successful INSERT, so they
  read the table with the new row in it. A failed SELECT answers 500 and leaves the row.
  No statement of the outer \<^verbatim>\<open>try\<close> outside the inner one throws, so the
  \<^verbatim>\<open>Server error\<close> branch has no input.
\<close>

definition visitors ::
  "visit_request \<Rightarrow> geo_outcome \<Rightarrow> db_outcome \<Rightarrow> int \<Rightarrow> visitor list \<Rightarrow>
     visitors_response \<times> visitor list \<times> outbound list" where
  "visitors req geo dbo now rows =
     (let addr = client_ip req;
          userAgent = or_default (user_agent_header req) ''unknown'';
          visitPath = or_default (query_path req) ''/'';
          located = geo_lookup addr geo;
          row = \<lparr>ip = addr, user_agent = userAgent, path = visitPath,
                 country = fst (fst located), city = snd (fst located)\<rparr>
      in if insert_err dbo then (Visitors_500 ''Database error'', rows, snd located)
         else
           (let rows' = rows @ [row]
            in if totalViews_err dbo \<or> uniqueVisitors_err dbo \<or> countries_err dbo
               then (Visitors_500 ''Database error'', rows', snd located)
               else (Visitors_json
                       \<lparr>totalViews = count_totalViews rows',
                        uniqueVisitors = count_uniqueVisitors rows',
                        countries = select_countries rows',
                        recentVisit = (fst (fst located), snd (fst located), now)\<rparr>,
                     rows', snd located)))"

text \<open>
  The earlier variant of the handler (\<^verbatim>\<open>part_000\<close>): no geolocation, a table without
  the columns \<^verbatim>\<open>country\<close> and \<^verbatim>\<open>city\<close> (NULL in the model), one SELECT.
\<close>

datatype variant_response = Variant_json nat | Variant_500 string

definition visitors_variant ::
  "visit_request \<Rightarrow> db_outcome \<Rightarrow> visitor list \<Rightarrow> variant_response \<times> visitor list" where
  "visitors_variant req dbo rows =
     (let addr = client_ip req;
          userAgent = or_default (user_agent_header req) ''unknown'';
          visitPath = or_default (query_path req) ''/'';
          row = \<lparr>ip = addr, user_agent = userAgent, path = visitPath,
                 country = None, city = None\<rparr>
      in if insert_err dbo then (Variant_500 ''Database error'', rows)
         else
           (let rows' = rows @ [row]
            in if totalViews_err dbo then (Variant_500 ''Database error'', rows')
               else (Variant_json (count_totalViews rows'), rows')))"

text \<open>
  A single-process run without concurrent writers: the requests are handled one after
  the other, each on the table the one before left.
\<close>

record visit =
  request :: visit_request
  geo :: geo_outcome
  db :: db_outcome
  clock :: int

fun run_visitors :: "visit list \<Rightarrow> visitor list \<Rightarrow> visitors_response list \<times> visitor list" where
  "run_visitors [] rows = ([], rows)"
| "run_visitors (v # vs) rows =
     (case visitors (request v) (geo v) (db v) (clock v) rows of
        (resp, rows', calls) \<Rightarrow>
          (case run_visitors vs rows' of (resps, rows'') \<Rightarrow> (resp # resps, rows'')))"

fun run_variant :: "visit list \<Rightarrow> visitor list \<Rightarrow> variant_response list \<times> visitor list" where
  "run_variant [] rows = ([], rows)"
| "run_variant (v # vs) rows =
     (case visitors_variant (request v) (db v) rows of
        (resp, rows') \<Rightarrow>
          (case run_variant vs rows' of (resps, rows'') \<Rightarrow> (resp # resps, rows'')))"

text \<open>The \<^verbatim>\<open>totalViews\<close> of the successful responses of a run, in order.\<close>

fun totalViews_of :: "visitors_response list \<Rightarrow> nat list" where
  "totalViews_of [] = []"
| "totalViews_of (Visitors_json b # resps) = totalViews b # totalViews_of resps"
| "totalViews_of (Visitors_500 e # resps) = totalViews_of resps"

fun variant_totalViews_of :: "variant_response list \<Rightarrow> nat list" where
  "variant_totalViews_of [] = []"
| "variant_totalViews_of (Variant_json n # resps) = n # variant_totalViews_of resps"
| "variant_totalViews_of (Variant_500 e # resps) = variant_totalViews_of resps"

text \<open>The store answers every statement of the request without error.\<close>

definition db_ok :: "db_outcome \<Rightarrow> bool" where
  "db_ok dbo \<longleftrightarrow>
     \<not> insert_err dbo \<and> \<not> totalViews_err dbo \<and> \<not> uniqueVisitors_err dbo \<and> \<not> countries_err dbo"

definition variant_db_ok :: "db_outcome \<Rightarrow> bool" where
  "variant_db_ok dbo \<longleftrightarrow> \<not> insert_err dbo \<and> \<not> totalViews_err dbo"

text \<open>
  The geolocation call did not give a location: it threw, or its response has no body or
  a status other than \<^verbatim>\<open>success\<close>.
\<close>

fun geo_unsuccessful :: "geo_outcome \<Rightarrow> bool" where
  "geo_unsuccessful Geo_throws = True"
| "geo_unsuccessful (Geo_response None) = True"
| "geo_unsuccessful (Geo_response (Some d)) = (status d \<noteq> ''success'')"

section \<open>The GitHub cache\<close>

text \<open>
  The upstream JSON, with the fields the handlers read, typed as GitHub documents them:
  counts are numbers, \<^verbatim>\<open>description\<close>, \<^verbatim>\<open>language\<close>, \<^verbatim>\<open>homepage\<close> and \<^verbatim>\<open>topics\<close> may be
  null or absent (\<open>None\<close>). The same record holds the thirteen fields that
  \<^verbatim>\<open>/api/github/repos\<close> keeps of a repository.
\<close>

record gh_user =
  user_followers :: int
  user_following :: int
  user_public_repos :: int

record gh_repo =
  repo_id :: int
  name :: string
  html_url :: string
  description :: "string option"
  language :: "string option"
  stargazers_count :: int
  forks_count :: int
  watchers_count :: int
  repo_size :: int
  created_at :: string
  updated_at :: string
  homepage :: "string option"
  topics :: "string list option"

record gh_event =
  event_type :: string
  event_created_at :: string
  payload_commits :: "string list"
  event_repo_name :: string

text \<open>
  The payload of \<^verbatim>\<open>/api/github/stats\<close>. An entry of \<open>languages\<close> is the object
  \<^verbatim>\<open>{name, count}\<close>; \<open>error\<close> is \<open>None\<close> when the object has no such field.
\<close>

record stats_data =
  followers :: int
  following :: int
  publicRepos :: int
  totalStars :: int
  totalForks :: int
  languages :: "(string \<times> nat) list"
  cached :: bool
  error :: "string option"

record activity_item =
  date :: string
  commit_count :: nat
  repo :: string

text \<open>
  \<^verbatim>\<open>let cache = { followers: null, repos: null, activity: null, lastUpdated: 0 }\<close>.
  \<open>None\<close> is \<^verbatim>\<open>null\<close>. An object and an array, also the empty one, are truthy, so the
  test \<^verbatim>\<open>cache.repos && \<dots>\<close> asks whether the field is not \<^verbatim>\<open>null\<close>.
\<close>

record cache =
  cache_followers :: "stats_data option"
  cache_repos :: "gh_repo list option"
  cache_activity :: "activity_item list option"
  lastUpdated :: int

definition initial_cache :: cache where
  "initial_cache =
     \<lparr>cache_followers = None, cache_repos = None, cache_activity = None, lastUpdated = 0\<rparr>"

definition CACHE_DURATION :: int where
  "CACHE_DURATION = 300000"

datatype github_response =
    Stats_json stats_data
  | Status_500 string
  | Repos_json "gh_repo list" bool
  | Activity_json "activity_item list" bool

subsection \<open>GET /api/github/stats\<close>

text \<open>\<^verbatim>\<open>reposRes.data.reduce((sum, repo) => sum + repo.stargazers_count, 0)\<close>, and the same
  for forks.\<close>

definition sum_stargazers :: "gh_repo list \<Rightarrow> int" where
  "sum_stargazers rs = foldl (\<lambda>sum r. sum + stargazers_count r) 0 rs"

definition sum_forks :: "gh_repo list \<Rightarrow> int" where
  "sum_forks rs = foldl (\<lambda>sum r. sum + forks_count r) 0 rs"

text \<open>
  The body of the \<^verbatim>\<open>forEach\<close>: \<^verbatim>\<open>if (repo.language)\<close> is false for \<^verbatim>\<open>null\<close> and for the
  empty string. The object \<^verbatim>\<open>languages\<close> is the list of its entries in insertion order,
  which is the order of \<^verbatim>\<open>Object.entries\<close> for keys that are language names.
\<close>

definition count_language :: "gh_repo \<Rightarrow> (string \<times> nat) list \<Rightarrow> (string \<times> nat) list" where
  "count_language r langs =
     (case language r of
        None \<Rightarrow> langs
      | Some l \<Rightarrow> if l = [] then langs else incr_key l langs)"

definition language_counts :: "gh_repo list \<Rightarrow> (string \<times> nat) list" where
  "language_counts rs = fold count_language rs []"

text \<open>The entry of a key in a list of counts, 0 when it has none.\<close>

definition tally :: "(string \<times> nat) list \<Rightarrow> string \<Rightarrow> nat" where
  "tally gs l = (case map_of gs l of None \<Rightarrow> 0 | Some n \<Rightarrow> n)"

text \<open>
  \<^verbatim>\<open>Object.entries(languages).sort(([,a], [,b]) => b - a).slice(0, 5)\<close>: the sort of
  JavaScript is stable, and so is \<^const>\<open>sort_key\<close>.
\<close>

definition top_languages :: "gh_repo list \<Rightarrow> (string \<times> nat) list" where
  "top_languages rs = take 5 (sort_key (\<lambda>e. - int (snd e)) (language_counts rs))"

definition stats_of :: "gh_user \<Rightarrow> gh_repo list \<Rightarrow> stats_data" where
  "stats_of u rs =
     \<lparr>followers = user_followers u,
      following = user_following u,
      publicRepos = user_public_repos u,
      totalStars = sum_stargazers rs,
      totalForks = sum_forks rs,
      languages = top_languages rs,
      cached = False,
      error = None\<rparr>"

text \<open>
  The handlers take two readings of \<^verbatim>\<open>Date.now()\<close>: \<open>now\<close> at the freshness test and
  \<open>now'\<close> when the cache is written, after the \<^verbatim>\<open>await\<close>. An upstream result is \<open>None\<close>
  when \<^verbatim>\<open>axios.get\<close> throws. \<^verbatim>\<open>Promise.all\<close> starts both requests before it awaits.
  The first branch is taken only when the payload is not \<^verbatim>\<open>null\<close>, so \<^const>\<open>the\<close> reads
  a payload that is there.
\<close>

definition github_stats ::
  "cache \<Rightarrow> int \<Rightarrow> int \<Rightarrow> gh_user option \<Rightarrow> gh_repo list option \<Rightarrow>
     github_response \<times> cache \<times> outbound list" where
  "github_stats c now now' userRes reposRes =
     (if cache_followers c \<noteq> None \<and> now - lastUpdated c < CACHE_DURATION
      then (Stats_json ((the (cache_followers c))\<lparr>cached := True\<rparr>), c, [])
      else
        (case (userRes, reposRes) of
           (Some u, Some rs) \<Rightarrow>
             (let data = stats_of u rs
              in (Stats_json data,
                  c\<lparr>cache_followers := Some data, lastUpdated := now'\<rparr>,
                  [Github_user, Github_repos_100]))
         | _ \<Rightarrow>
             (case cache_followers c of
                Some d \<Rightarrow>
                  (Stats_json (d\<lparr>cached := True, error := Some ''Using cached data''\<rparr>),
                   c, [Github_user, Github_repos_100])
              | None \<Rightarrow>
                  (Status_500 ''GitHub API error'', c, [Github_user, Github_repos_100]))))"

subsection \<open>GET /api/github/repos\<close>

definition repo_view :: "gh_repo \<Rightarrow> gh_repo" where
  "repo_view r =
     r\<lparr>description := Some (or_default (description r) ''No description provided''),
       topics := Some (case topics r of None \<Rightarrow> [] | Some ts \<Rightarrow> ts)\<rparr>"

definition github_repos ::
  "cache \<Rightarrow> int \<Rightarrow> int \<Rightarrow> gh_repo list option \<Rightarrow>
     github_response \<times> cache \<times> outbound list" where
  "github_repos c now now' reposRes =
     (if cache_repos c \<noteq> None \<and> now - lastUpdated c < CACHE_DURATION
      then (Repos_json (the (cache_repos c)) True, c, [])
      else
        (case reposRes of
           Some rs \<Rightarrow>
             (let repos = map repo_view rs
              in (Repos_json repos False,
                  c\<lparr>cache_repos := Some repos, lastUpdated := now'\<rparr>,
                  [Github_repos_updated_10]))
         | None \<Rightarrow>
             (case cache_repos c of
                Some rs \<Rightarrow> (Repos_json rs True, c, [Github_repos_updated_10])
              | None \<Rightarrow> (Repos_json [] False, c, [Github_repos_updated_10]))))"

subsection \<open>GET /api/github/activity\<close>

text \<open>\<^verbatim>\<open>event.created_at.split('T')[0]\<close>\<close>

definition date_of :: "string \<Rightarrow> string" where
  "date_of s = takeWhile (\<lambda>ch. ch \<noteq> CHR ''T'') s"

definition activity_of :: "gh_event list \<Rightarrow> activity_item list" where
  "activity_of evs =
     map (\<lambda>e. \<lparr>date = date_of (event_created_at e),
                commit_count = length (payload_commits e),
                repo = event_repo_name e\<rparr>)
       (filter (\<lambda>e. event_type e = ''PushEvent'') evs)"

text \<open>The \<^verbatim>\<open>catch\<close> block of this handler does not read the cache.\<close>

definition github_activity ::
  "cache \<Rightarrow> int \<Rightarrow> int \<Rightarrow> gh_event list option \<Rightarrow>
     github_response \<times> cache \<times> outbound list" where
  "github_activity c now now' commitsRes =
     (if cache_activity c \<noteq> None \<and> now - lastUpdated c < CACHE_DURATION
      then (Activity_json (the (cache_activity c)) True, c, [])
      else
        (case commitsRes of
           Some evs \<Rightarrow>
             (let activity = activity_of evs
              in (Activity_json activity False,
                  c\<lparr>cache_activity := Some activity, lastUpdated := now'\<rparr>,
                  [Github_events_100]))
         | None \<Rightarrow> (Activity_json [] False, c, [Github_events_100])))"

section \<open>GET /api/quotes\<close>

definition quotes :: "string list" where
  "quotes =
     [''First, solve the problem. Then, write the code.'',
      ''Code is like humor. When you have to explain it, it's bad.'',
      ''Programming isn't about what you know; it's about what you can figure out.'',
      ''The only way to learn a new programming language is by writing programs in it.'',
      ''Any fool can write code that a computer can understand. Good programmers write code that humans can understand.'',
      ''Simplicity is the soul of efficiency.'',
      ''Make it work, make it right, make it fast.'',
      ''Programming is the art of telling another human what one wants the computer to do.'',
      ''The function of good software is to make the complex appear simple.'',
      ''Good code is its own best documentation.'']"

text \<open>
  \<^verbatim>\<open>xs.slice(0, end)\<close>: a negative \<^verbatim>\<open>end\<close> counts from the end of the array, and the
  result is clipped to the array.
\<close>

definition slice0 :: "'a list \<Rightarrow> int \<Rightarrow> 'a list" where
  "slice0 xs e =
     (let len = int (length xs);
          final = (if e < 0 then max (len + e) 0 else min e len)
      in take (nat final) xs)"

text \<open>
  The handler. \<open>parsed\<close> is the value of \<^verbatim>\<open>parseInt(req.query.count)\<close>, \<open>None\<close> for NaN;
  \<^verbatim>\<open>|| 1\<close> replaces NaN and 0. \<open>shuffled\<close> is the array after
  \<^verbatim>\<open>[...quotes].sort(() => 0.5 - Math.random())\<close>: which rearrangement of \<open>quotes\<close> it
  is depends on the random numbers drawn.
\<close>

definition is_shuffle :: "string list \<Rightarrow> bool" where
  "is_shuffle shuffled \<longleftrightarrow> mset shuffled = mset quotes"

definition api_quotes :: "int option \<Rightarrow> string list \<Rightarrow> string list" where
  "api_quotes parsed shuffled =
     (let count = (case parsed of None \<Rightarrow> 1 | Some n \<Rightarrow> if n = 0 then 1 else n)
      in slice0 shuffled (min count 5))"

section \<open>Example data\<close>

text \<open>Concrete requests, outcomes and states for the examples below.\<close>

definition all_ok :: db_outcome where
  "all_ok = \<lparr>insert_err = False, totalViews_err = False, uniqueVisitors_err = False,
             countries_err = False\<rparr>"

definition select_fails :: db_outcome where
  "select_fails = \<lparr>insert_err = False, totalViews_err = True, uniqueVisitors_err = False,
                   countries_err = False\<rparr>"

definition insert_fails :: db_outcome where
  "insert_fails = \<lparr>insert_err = True, totalViews_err = False, uniqueVisitors_err = False,
                   countries_err = False\<rparr>"

definition request_from :: "string \<Rightarrow> visit_request" where
  "request_from a = \<lparr>x_forwarded_for = None, remoteAddress = Some a,
                      user_agent_header = Some ''curl/8.5.0'', query_path = None\<rparr>"

definition located_in :: "string \<Rightarrow> string \<Rightarrow> geo_outcome" where
  "located_in co ci =
     Geo_response (Some \<lparr>status = ''success'', geo_country = Some co, geo_city = Some ci\<rparr>)"

definition visit_of :: "string \<Rightarrow> geo_outcome \<Rightarrow> db_outcome \<Rightarrow> visit" where
  "visit_of a g d = \<lparr>request = request_from a, geo = g, db = d, clock = 1700000000000\<rparr>"

definition octocat :: gh_user where
  "octocat = \<lparr>user_followers = 12, user_following = 3, user_public_repos = 4\<rparr>"

definition repo_with :: "string \<Rightarrow> string option \<Rightarrow> int \<Rightarrow> int \<Rightarrow> gh_repo" where
  "repo_with n l stars forks =
     \<lparr>repo_id = 1, name = n, html_url = ''https://github.com/TherealVoltageLord/'' @ n,
      description = None, language = l, stargazers_count = stars, forks_count = forks,
      watchers_count = stars, repo_size = 10, created_at = ''2024-01-01T00:00:00Z'',
      updated_at = ''2024-02-01T00:00:00Z'', homepage = None, topics = None\<rparr>"

definition some_repos :: "gh_repo list" where
  "some_repos =
     [repo_with ''site'' (Some ''JavaScript'') 5 1,
      repo_with ''notes'' None 2 7,
      repo_with ''bot'' (Some ''JavaScript'') 1 0,
      repo_with ''tool'' (Some ''Python'') 0 0]"

definition push_event :: gh_event where
  "push_event =
     \<lparr>event_type = ''PushEvent'', event_created_at = ''2024-03-05T10:11:12Z'',
      payload_commits = [''a1b2c3'', ''d4e5f6''],
      event_repo_name = ''TherealVoltageLord/voltagelord''\<rparr>"

definition pushed :: "activity_item list" where
  "pushed = activity_of [push_event]"

definition stale_activity_cache :: cache where
  "stale_activity_cache = initial_cache\<lparr>cache_activity := Some pushed, lastUpdated := 1000\<rparr>"

definition two_visits_one_failed_select :: "visit list" where
  "two_visits_one_failed_select =
     [visit_of ''203.0.113.7'' Geo_throws select_fails,
      visit_of ''198.51.100.4'' (located_in ''Ghana'' ''Accra'') all_ok]"

definition three_visits_one_failed_insert :: "visit list" where
  "three_visits_one_failed_insert =
     [visit_of ''203.0.113.7'' (located_in ''Ghana'' ''Accra'') all_ok,
      visit_of ''198.51.100.4'' Geo_throws insert_fails,
      visit_of ''203.0.113.7'' (located_in ''Ghana'' ''Accra'') all_ok]"

definition earlier_rows :: "visitor list" where
  "earlier_rows =
     [\<lparr>ip = Some ''203.0.113.7'', user_agent = ''curl/8.5.0'', path = ''/'',
       country = Some ''Ghana'', city = Some ''Accra''\<rparr>,
      \<lparr>ip = Some ''192.0.2.1'', user_agent = ''curl/8.5.0'', path = ''/'',
       country = Some ''Unknown'', city = Some ''Unknown''\<rparr>,
      \<lparr>ip = None, user_agent = ''unknown'', path = ''/about'',
       country = Some ''Togo'', city = Some ''Lome''\<rparr>,
      \<lparr>ip = Some ''198.51.100.4'', user_agent = ''curl/8.5.0'', path = ''/'',
       country = Some ''Ghana'', city = Some ''Kumasi''\<rparr>]"

definition unknown_row :: "string \<Rightarrow> visitor" where
  "unknown_row a =
     \<lparr>ip = Some a, user_agent = ''curl/8.5.0'', path = ''/'',
      country = Some ''Unknown'', city = Some ''Unknown''\<rparr>"

definition first_stats :: stats_data where
  "first_stats = stats_of octocat some_repos"

definition warm_stats_cache :: cache where
  "warm_stats_cache =
     initial_cache\<lparr>cache_followers := Some first_stats, lastUpdated := 1700000000250\<rparr>"

definition full_cache :: cache where
  "full_cache =
     \<lparr>cache_followers = Some first_stats, cache_repos = Some [],
      cache_activity = Some pushed, lastUpdated = 1000\<rparr>"

definition refreshed_cache :: cache where
  "refreshed_cache =
     full_cache\<lparr>cache_followers := Some (stats_of octocat []), lastUpdated := 500050\<rparr>"

section \<open>The queries of /api/visitors\<close>

lemma keys_incr_key:
  "map fst (incr_key k gs) = (if k \<in> fst ` set gs then map fst gs else map fst gs @ [k])"
  by (induction k gs rule: incr_key.induct) (auto simp: image_iff)

lemma fst_set_incr_key: "fst ` set (incr_key k gs) = insert k (fst ` set gs)"
proof -
  have "fst ` set (incr_key k gs) = set (map fst (incr_key k gs))" by simp
  also have "\<dots> = insert k (fst ` set gs)"
    by (auto simp only: keys_incr_key set_map set_append list.set split: if_splits)
  finally show ?thesis .
qed

lemma fst_set_fold_incr_key: "fst ` set (fold incr_key cs gs) = set cs \<union> fst ` set gs"
  by (induction cs arbitrary: gs) (auto simp: fst_set_incr_key)

lemma set_where_country_known: "''Unknown'' \<notin> set (where_country_known rows)"
  by (simp add: where_country_known_def)

lemma select_countries_no_Unknown:
  "\<forall>e \<in> set (select_countries rows). fst e \<noteq> ''Unknown''"
proof -
  have "fst ` set (select_countries rows) \<subseteq>
      fst ` set (group_by_country (where_country_known rows))"
    unfolding select_countries_def order_by_count_desc_def
    by (metis image_mono set_sort set_take_subset)
  then show ?thesis
    using set_where_country_known [of rows]
    by (force simp: group_by_country_def fst_set_fold_incr_key)
qed

lemma order_by_count_desc_sorted:
  "sorted_wrt (\<lambda>e e'. snd e' \<le> snd e) (order_by_count_desc gs)"
proof -
  have "sorted (map (\<lambda>g. - int (snd g)) (order_by_count_desc gs))"
    unfolding order_by_count_desc_def by (rule sorted_sort_key)
  then show ?thesis
    by (simp add: sorted_map)
qed

lemma select_countries_sorted:
  "sorted_wrt (\<lambda>e e'. snd e' \<le> snd e) (select_countries rows)"
  unfolding select_countries_def by (rule sorted_wrt_take) (rule order_by_count_desc_sorted)

lemma count_unique_le_total: "count_uniqueVisitors rows \<le> count_totalViews rows"
proof -
  have "length (remdups (List.map_filter ip rows)) \<le> length (List.map_filter ip rows)"
    by (rule length_remdups_leq)
  also have "\<dots> \<le> length rows"
    by (simp add: List.map_filter_def)
  finally show ?thesis
    by (simp add: count_uniqueVisitors_def count_totalViews_def)
qed

section \<open>The handler of /api/visitors\<close>

lemma visitors_json_reads_new_table:
  "visitors req g dbo now rows = (Visitors_json b, rows', calls) \<Longrightarrow>
     totalViews b = count_totalViews rows' \<and>
     uniqueVisitors b = count_uniqueVisitors rows' \<and>
     countries b = select_countries rows'"
  by (auto simp: visitors_def Let_def split: if_splits)

lemma visitors_insert_err:
  "insert_err dbo \<Longrightarrow>
     fst (visitors req g dbo now rows) = Visitors_500 ''Database error'' \<and>
     fst (snd (visitors req g dbo now rows)) = rows"
  by (simp add: visitors_def Let_def)

lemma visitors_db_ok:
  "db_ok dbo \<Longrightarrow>
     (\<exists>b. fst (visitors req g dbo now rows) = Visitors_json b \<and>
          totalViews b = Suc (length rows)) \<and>
     length (fst (snd (visitors req g dbo now rows))) = Suc (length rows)"
  by (simp add: visitors_def Let_def db_ok_def count_totalViews_def)

lemma visitors_select_err:
  "\<not> insert_err dbo \<Longrightarrow> \<not> db_ok dbo \<Longrightarrow>
     fst (visitors req g dbo now rows) = Visitors_500 ''Database error'' \<and>
     (\<exists>r. fst (snd (visitors req g dbo now rows)) = rows @ [r])"
  by (auto simp: visitors_def Let_def db_ok_def)

lemma variant_select_err:
  "\<not> insert_err dbo \<Longrightarrow> \<not> variant_db_ok dbo \<Longrightarrow>
     fst (visitors_variant req dbo rows) = Variant_500 ''Database error'' \<and>
     (\<exists>r. snd (visitors_variant req dbo rows) = rows @ [r])"
  by (auto simp: visitors_variant_def Let_def variant_db_ok_def)

lemma variant_insert_err:
  "insert_err dbo \<Longrightarrow> visitors_variant req dbo rows = (Variant_500 ''Database error'', rows)"
  by (simp add: visitors_variant_def Let_def)

lemma variant_db_ok:
  "variant_db_ok dbo \<Longrightarrow>
     fst (visitors_variant req dbo rows) = Variant_json (Suc (length rows)) \<and>
     length (snd (visitors_variant req dbo rows)) = Suc (length rows)"
  by (simp add: visitors_variant_def Let_def variant_db_ok_def count_totalViews_def)

subsection \<open>Runs\<close>

lemma run_visitors_Cons:
  "fst (run_visitors (v # vs) rows) =
     fst (visitors (request v) (geo v) (db v) (clock v) rows) #
     fst (run_visitors vs (fst (snd (visitors (request v) (geo v) (db v) (clock v) rows))))"
  by (simp split: prod.splits)

lemma run_variant_Cons:
  "fst (run_variant (v # vs) rows) =
     fst (visitors_variant (request v) (db v) rows) #
     fst (run_variant vs (snd (visitors_variant (request v) (db v) rows)))"
  by (simp split: prod.splits)

lemma upt_shift:
  "map (\<lambda>k. m + k) [1..<Suc (Suc n)] = Suc m # map (\<lambda>k. Suc m + k) [1..<Suc n]"
proof -
  have "[1..<Suc (Suc n)] = 1 # map Suc [1..<Suc n]"
    by (simp add: map_Suc_upt upt_conv_Cons del: upt_Suc)
  then show ?thesis by (simp add: comp_def del: upt_Suc)
qed

text \<open>
  When no request of the run fails after its INSERT, the successful responses count
  upwards from the size of the table at the start.
\<close>

lemma run_visitors_totalViews:
  "\<forall>v\<in>set vs. insert_err (db v) \<or> db_ok (db v) \<Longrightarrow>
   totalViews_of (fst (run_visitors vs rows)) =
     map (\<lambda>k. length rows + k) [1..<Suc (length (filter (\<lambda>v. db_ok (db v)) vs))]"
proof (induction vs arbitrary: rows)
  case Nil
  then show ?case by simp
next
  case (Cons v vs)
  have rest: "\<forall>v\<in>set vs. insert_err (db v) \<or> db_ok (db v)"
    using Cons.prems by simp
  let ?res = "visitors (request v) (geo v) (db v) (clock v) rows"
  show ?case
  proof (cases "insert_err (db v)")
    case True
    then have no: "\<not> db_ok (db v)" by (simp add: db_ok_def)
    from visitors_insert_err [OF True, of "request v" "geo v" "clock v" rows]
    have "totalViews_of (fst (run_visitors (v # vs) rows)) =
        totalViews_of (fst (run_visitors vs rows))"
      by (simp only: run_visitors_Cons totalViews_of.simps)
    with no Cons.IH [OF rest, of rows] show ?thesis
      by (simp del: upt_Suc)
  next
    case False
    with Cons.prems have ok: "db_ok (db v)" by simp
    from visitors_db_ok [OF ok, of "request v" "geo v" "clock v" rows]
    obtain b where b: "fst ?res = Visitors_json b" "totalViews b = Suc (length rows)"
      and len: "length (fst (snd ?res)) = Suc (length rows)"
      by blast
    have "totalViews_of (fst (run_visitors (v # vs) rows)) =
        Suc (length rows) # totalViews_of (fst (run_visitors vs (fst (snd ?res))))"
      by (simp only: run_visitors_Cons b totalViews_of.simps)
    also have "\<dots> = Suc (length rows) #
        map (\<lambda>k. Suc (length rows) + k) [1..<Suc (length (filter (\<lambda>v. db_ok (db v)) vs))]"
      by (simp only: Cons.IH [OF rest] len)
    also have "\<dots> =
        map (\<lambda>k. length rows + k) [1..<Suc (Suc (length (filter (\<lambda>v. db_ok (db v)) vs)))]"
      by (simp only: upt_shift)
    finally show ?thesis using ok by (simp del: upt_Suc)
  qed
qed

lemma run_variant_totalViews:
  "\<forall>v\<in>set vs. insert_err (db v) \<or> variant_db_ok (db v) \<Longrightarrow>
   variant_totalViews_of (fst (run_variant vs rows)) =
     map (\<lambda>k. length rows + k) [1..<Suc (length (filter (\<lambda>v. variant_db_ok (db v)) vs))]"
proof (induction vs arbitrary: rows)
  case Nil
  then show ?case by simp
next
  case (Cons v vs)
  have rest: "\<forall>v\<in>set vs. insert_err (db v) \<or> variant_db_ok (db v)"
    using Cons.prems by simp
  let ?res = "visitors_variant (request v) (db v) rows"
  show ?case
  proof (cases "insert_err (db v)")
    case True
    then have no: "\<not> variant_db_ok (db v)" by (simp add: variant_db_ok_def)
    have "variant_totalViews_of (fst (run_variant (v # vs) rows)) =
        variant_totalViews_of (fst (run_variant vs rows))"
      by (simp only: run_variant_Cons variant_insert_err [OF True] fst_conv snd_conv
          variant_totalViews_of.simps)
    with no Cons.IH [OF rest, of rows] show ?thesis
      by (simp del: upt_Suc)
  next
    case False
    with Cons.prems have ok: "variant_db_ok (db v)" by simp
    note r = variant_db_ok [OF ok, of "request v" rows]
    have "variant_totalViews_of (fst (run_variant (v # vs) rows)) =
        Suc (length rows) # variant_totalViews_of (fst (run_variant vs (snd ?res)))"
      by (simp only: run_variant_Cons r variant_totalViews_of.simps)
    also have "\<dots> = Suc (length rows) #
        map (\<lambda>k. Suc (length rows) + k)
          [1..<Suc (length (filter (\<lambda>v. variant_db_ok (db v)) vs))]"
      by (simp only: Cons.IH [OF rest] r)
    also have "\<dots> = map (\<lambda>k. length rows + k)
        [1..<Suc (Suc (length (filter (\<lambda>v. variant_db_ok (db v)) vs)))]"
      by (simp only: upt_shift)
    finally show ?thesis using ok by (simp del: upt_Suc)
  qed
qed

section \<open>Claims about /api/visitors\<close>

text \<open>
  C3, as the code has it. In a single-process run that starts from an empty table and in
  which no request fails after its INSERT has completed (every failed request failed at
  the INSERT), the N-th successful request returns \<open>totalViews = N\<close>: the
  \<open>totalViews\<close> of the successful responses are \<open>1, 2, \<dots>\<close> in order. On any table,
  a request whose INSERT fails answers 500 and leaves the table as it was; a request
  whose INSERT succeeds and one of whose SELECTs fails answers 500 and leaves its row in
  the table; and a successful request returns the number of rows it found plus one, so
  it counts every row left by an earlier request. All of this holds for the handler of
  \<^verbatim>\<open>server.js\<close> and for its earlier variant.
\<close>

theorem totalViews_of_nth_successful_call:
  "((\<forall>v\<in>set vs. insert_err (db v) \<or> db_ok (db v)) \<longrightarrow>
      totalViews_of (fst (run_visitors vs [])) =
        [1..<Suc (length (filter (\<lambda>v. db_ok (db v)) vs))]) \<and>
   ((\<forall>v\<in>set vs. insert_err (db v) \<or> variant_db_ok (db v)) \<longrightarrow>
      variant_totalViews_of (fst (run_variant vs [])) =
        [1..<Suc (length (filter (\<lambda>v. variant_db_ok (db v)) vs))]) \<and>
   (insert_err dbo \<longrightarrow>
      fst (visitors req g dbo now rows) = Visitors_500 ''Database error'' \<and>
      fst (snd (visitors req g dbo now rows)) = rows \<and>
      visitors_variant req dbo rows = (Variant_500 ''Database error'', rows)) \<and>
   (\<not> insert_err dbo \<and> \<not> db_ok dbo \<longrightarrow>
      fst (visitors req g dbo now rows) = Visitors_500 ''Database error'' \<and>
      (\<exists>r. fst (snd (visitors req g dbo now rows)) = rows @ [r])) \<and>
   (\<not> insert_err dbo \<and> \<not> variant_db_ok dbo \<longrightarrow>
      fst (visitors_variant req dbo rows) = Variant_500 ''Database error'' \<and>
      (\<exists>r. snd (visitors_variant req dbo rows) = rows @ [r])) \<and>
   (db_ok dbo \<longrightarrow>
      (\<exists>b. fst (visitors req g dbo now rows) = Visitors_json b \<and>
           totalViews b = Suc (length rows))) \<and>
   (variant_db_ok dbo \<longrightarrow>
      fst (visitors_variant req dbo rows) = Variant_json (Suc (length rows)))"
proof -
  have runs:
    "(\<forall>v\<in>set vs. insert_err (db v) \<or> db_ok (db v)) \<longrightarrow>
      totalViews_of (fst (run_visitors vs [])) =
        [1..<Suc (length (filter (\<lambda>v. db_ok (db v)) vs))]"
    "(\<forall>v\<in>set vs. insert_err (db v) \<or> variant_db_ok (db v)) \<longrightarrow>
      variant_totalViews_of (fst (run_variant vs [])) =
        [1..<Suc (length (filter (\<lambda>v. variant_db_ok (db v)) vs))]"
    using run_visitors_totalViews [of vs "[]"] run_variant_totalViews [of vs "[]"]
    by (simp_all del: upt_Suc)
  have failed_insert:
    "insert_err dbo \<longrightarrow>
      fst (visitors req g dbo now rows) = Visitors_500 ''Database error'' \<and>
      fst (snd (visitors req g dbo now rows)) = rows \<and>
      visitors_variant req dbo rows = (Variant_500 ''Database error'', rows)"
    using visitors_insert_err [of dbo req g now rows] variant_insert_err [of dbo req rows]
    by simp
  have failed_select:
    "\<not> insert_err dbo \<and> \<not> db_ok dbo \<longrightarrow>
      fst (visitors req g dbo now rows) = Visitors_500 ''Database error'' \<and>
      (\<exists>r. fst (snd (visitors req g dbo now rows)) = rows @ [r])"
    "\<not> insert_err dbo \<and> \<not> variant_db_ok dbo \<longrightarrow>
      fst (visitors_variant req dbo rows) = Variant_500 ''Database error'' \<and>
      (\<exists>r. snd (visitors_variant req dbo rows) = rows @ [r])"
    using visitors_select_err [of dbo req g now rows] variant_select_err [of dbo req rows]
    by blast+
  have success:
    "db_ok dbo \<longrightarrow>
      (\<exists>b. fst (visitors req g dbo now rows) = Visitors_json b \<and>
           totalViews b = Suc (length rows))"
    "variant_db_ok dbo \<longrightarrow>
      fst (visitors_variant req dbo rows) = Variant_json (Suc (length rows))"
    using visitors_db_ok [of dbo req g now rows] variant_db_ok [of dbo req rows]
    by blast+
  from runs failed_insert failed_select success show ?thesis
    by (intro conjI)
qed

text \<open>
  Three requests, the second of which fails at its INSERT: the two others return 1 and 2.
  And on a table of four rows: a failed INSERT leaves four rows, a failed SELECT leaves
  five, and a successful request returns 5.
\<close>

theorem totalViews_of_nth_successful_call_witness:
  "totalViews_of (fst (run_visitors three_visits_one_failed_insert [])) = [1, 2] \<and>
   variant_totalViews_of (fst (run_variant three_visits_one_failed_insert [])) = [1, 2] \<and>
   visitors (request_from ''203.0.113.7'') Geo_throws insert_fails 5 earlier_rows =
     (Visitors_500 ''Database error'', earlier_rows, [Geo_get (Some ''203.0.113.7'')]) \<and>
   visitors_variant (request_from ''203.0.113.7'') insert_fails earlier_rows =
     (Variant_500 ''Database error'', earlier_rows) \<and>
   visitors (request_from ''203.0.113.7'') Geo_throws select_fails 5 earlier_rows =
     (Visitors_500 ''Database error'', earlier_rows @ [unknown_row ''203.0.113.7''],
      [Geo_get (Some ''203.0.113.7'')]) \<and>
   length (snd (visitors_variant (request_from ''203.0.113.7'') select_fails earlier_rows)) = 5 \<and>
   fst (visitors_variant (request_from ''203.0.113.7'') select_fails earlier_rows) =
     Variant_500 ''Database error'' \<and>
   fst (visitors (request_from ''203.0.113.7'') Geo_throws all_ok 5 earlier_rows) =
     Visitors_json \<lparr>totalViews = 5, uniqueVisitors = 3,
                    countries = [(''Ghana'', 2), (''Togo'', 1)],
                    recentVisit = (Some ''Unknown'', Some ''Unknown'', 5)\<rparr> \<and>
   fst (visitors_variant (request_from ''203.0.113.7'') all_ok earlier_rows) = Variant_json 5"
proof -
  have outcomes: "insert_err insert_fails" "\<not> insert_err select_fails"
    "\<not> db_ok select_fails" "\<not> variant_db_ok select_fails" "db_ok all_ok"
    "variant_db_ok all_ok"
    by (simp_all add: insert_fails_def select_fails_def all_ok_def db_ok_def variant_db_ok_def)
  have size: "length earlier_rows = 4"
    by (simp add: earlier_rows_def)
  have no_failed_select:
    "\<forall>v\<in>set three_visits_one_failed_insert. insert_err (db v) \<or> db_ok (db v)"
    "\<forall>v\<in>set three_visits_one_failed_insert. insert_err (db v) \<or> variant_db_ok (db v)"
    by (simp_all add: three_visits_one_failed_insert_def visit_of_def all_ok_def
        insert_fails_def db_ok_def variant_db_ok_def)
  have successes:
    "length (filter (\<lambda>v. db_ok (db v)) three_visits_one_failed_insert) = 2"
    "length (filter (\<lambda>v. variant_db_ok (db v)) three_visits_one_failed_insert) = 2"
    by (simp_all add: three_visits_one_failed_insert_def visit_of_def all_ok_def
        insert_fails_def db_ok_def variant_db_ok_def)
  have evals:
    "visitors (request_from ''203.0.113.7'') Geo_throws insert_fails 5 earlier_rows =
       (Visitors_500 ''Database error'', earlier_rows, [Geo_get (Some ''203.0.113.7'')])"
    "visitors (request_from ''203.0.113.7'') Geo_throws select_fails 5 earlier_rows =
       (Visitors_500 ''Database error'', earlier_rows @ [unknown_row ''203.0.113.7''],
        [Geo_get (Some ''203.0.113.7'')])"
    by (simp_all add: visitors_def Let_def insert_fails_def select_fails_def request_from_def
        client_ip_def or_default_def geo_lookup_def unknown_row_def)
  have json: "fst (visitors (request_from ''203.0.113.7'') Geo_throws all_ok 5 earlier_rows) =
     Visitors_json \<lparr>totalViews = 5, uniqueVisitors = 3,
                    countries = [(''Ghana'', 2), (''Togo'', 1)],
                    recentVisit = (Some ''Unknown'', Some ''Unknown'', 5)\<rparr>"
    by (simp add: visitors_def Let_def all_ok_def request_from_def client_ip_def or_default_def
        geo_lookup_def earlier_rows_def count_totalViews_def count_uniqueVisitors_def
        select_countries_def where_country_known_def group_by_country_def
        order_by_count_desc_def List.map_filter_def)
  note at_insert = totalViews_of_nth_successful_call
    [where dbo = insert_fails and req = "request_from ''203.0.113.7''" and g = Geo_throws
      and now = 5 and rows = earlier_rows]
  note at_select = totalViews_of_nth_successful_call
    [where dbo = select_fails and req = "request_from ''203.0.113.7''" and g = Geo_throws
      and now = 5 and rows = earlier_rows]
  note at_ok = totalViews_of_nth_successful_call
    [where dbo = all_ok and req = "request_from ''203.0.113.7''" and g = Geo_throws
      and now = 5 and rows = earlier_rows and vs = three_visits_one_failed_insert]
  from at_ok no_failed_select have
    "totalViews_of (fst (run_visitors three_visits_one_failed_insert [])) =
       [1..<Suc (length (filter (\<lambda>v. db_ok (db v)) three_visits_one_failed_insert))]"
    "variant_totalViews_of (fst (run_variant three_visits_one_failed_insert [])) =
       [1..<Suc (length (filter (\<lambda>v. variant_db_ok (db v)) three_visits_one_failed_insert))]"
    by blast+
  then have a: "totalViews_of (fst (run_visitors three_visits_one_failed_insert [])) = [1, 2]"
    "variant_totalViews_of (fst (run_variant three_visits_one_failed_insert [])) = [1, 2]"
    unfolding successes by (simp_all add: upt_rec)
  from at_insert outcomes have b:
    "visitors_variant (request_from ''203.0.113.7'') insert_fails earlier_rows =
       (Variant_500 ''Database error'', earlier_rows)"
    by blast
  from at_select outcomes obtain r where c:
    "fst (visitors_variant (request_from ''203.0.113.7'') select_fails earlier_rows) =
       Variant_500 ''Database error''"
    "snd (visitors_variant (request_from ''203.0.113.7'') select_fails earlier_rows) =
       earlier_rows @ [r]"
    by blast
  from at_ok outcomes have d:
    "fst (visitors_variant (request_from ''203.0.113.7'') all_ok earlier_rows) =
       Variant_json (Suc (length earlier_rows))"
    by blast
  from a evals json b c d size show ?thesis by simp
qed

text \<open>
  C3 as stated fails. The first request inserts its row and then its
  \<^verbatim>\<open>SELECT COUNT(*)\<close> calls back with an error, so it answers 500 and the row stays. The
  second request succeeds: it is the first successful call, and it returns
  \<open>totalViews = 2\<close>.
\<close>

theorem totalViews_after_failed_select_counterexample:
  "fst (run_visitors two_visits_one_failed_select []) =
     [Visitors_500 ''Database error'',
      Visitors_json \<lparr>totalViews = 2, uniqueVisitors = 2, countries = [(''Ghana'', 1)],
                     recentVisit = (Some ''Ghana'', Some ''Accra'', 1700000000000)\<rparr>] \<and>
   totalViews_of (fst (run_visitors two_visits_one_failed_select [])) = [2] \<and>
   variant_totalViews_of (fst (run_variant two_visits_one_failed_select [])) = [2]"
  by (simp add: two_visits_one_failed_select_def visit_of_def visitors_def visitors_variant_def
      select_fails_def all_ok_def Let_def count_totalViews_def count_uniqueVisitors_def
      select_countries_def where_country_known_def group_by_country_def order_by_count_desc_def
      request_from_def client_ip_def or_default_def geo_lookup_def located_in_def)

text \<open>
  C5. Whatever the table holds, the \<open>countries\<close> list of a successful response has no
  entry whose country is the string \<^verbatim>\<open>Unknown\<close>, and its entries are in descending order
  of count.
\<close>

theorem countries_known_and_descending:
  "visitors req g dbo now rows = (Visitors_json b, rows', calls) \<Longrightarrow>
     (\<forall>e \<in> set (countries b). fst e \<noteq> ''Unknown'') \<and>
     sorted_wrt (\<lambda>e e'. snd e' \<le> snd e) (countries b)"
  using visitors_json_reads_new_table [of req g dbo now rows b rows' calls]
    select_countries_no_Unknown [of rows'] select_countries_sorted [of rows']
  by simp

theorem countries_known_and_descending_witness:
  "visitors (request_from ''203.0.113.7'') (located_in ''Ghana'' ''Accra'') all_ok 5 earlier_rows =
     (Visitors_json \<lparr>totalViews = 5, uniqueVisitors = 3,
                     countries = [(''Ghana'', 3), (''Togo'', 1)],
                     recentVisit = (Some ''Ghana'', Some ''Accra'', 5)\<rparr>,
      earlier_rows @
        [(unknown_row ''203.0.113.7'')\<lparr>country := Some ''Ghana'', city := Some ''Accra''\<rparr>],
      [Geo_get (Some ''203.0.113.7'')]) \<and>
   fst (''Ghana'', 3::nat) \<noteq> ''Unknown'' \<and> fst (''Togo'', 1::nat) \<noteq> ''Unknown'' \<and>
   sorted_wrt (\<lambda>e e'. snd e' \<le> snd e) [(''Ghana'', 3::nat), (''Togo'', 1)]"
proof -
  have run: "visitors (request_from ''203.0.113.7'') (located_in ''Ghana'' ''Accra'') all_ok 5
      earlier_rows =
     (Visitors_json \<lparr>totalViews = 5, uniqueVisitors = 3,
                     countries = [(''Ghana'', 3), (''Togo'', 1)],
                     recentVisit = (Some ''Ghana'', Some ''Accra'', 5)\<rparr>,
      earlier_rows @
        [(unknown_row ''203.0.113.7'')\<lparr>country := Some ''Ghana'', city := Some ''Accra''\<rparr>],
      [Geo_get (Some ''203.0.113.7'')])"
    by (simp add: visitors_def Let_def all_ok_def request_from_def client_ip_def or_default_def
        geo_lookup_def earlier_rows_def count_totalViews_def count_uniqueVisitors_def
        select_countries_def where_country_known_def group_by_country_def located_in_def
        order_by_count_desc_def List.map_filter_def unknown_row_def)
  from countries_known_and_descending [OF run] run show ?thesis by simp
qed

text \<open>
  C7, as the code has it. The handler compares the source address with the two literals
  \<^verbatim>\<open>::1\<close> and \<^verbatim>\<open>127.0.0.1\<close>: for these it makes no outbound call, and for every
  other address, whatever it denotes, it makes the geolocation call. For any address,
  when the geolocation call throws or answers without success, the row is inserted with
  country and city \<^verbatim>\<open>Unknown\<close> unless the INSERT itself fails, and the response is the
  success shape with that sentinel whenever the store answers without error: the lookup
  never makes the request fail.
\<close>

theorem geolocation_best_effort:
  "(client_ip req = Some ''::1'' \<or> client_ip req = Some ''127.0.0.1'' \<longrightarrow>
      snd (snd (visitors req g dbo now rows)) = []) \<and>
   (client_ip req \<noteq> Some ''::1'' \<and> client_ip req \<noteq> Some ''127.0.0.1'' \<longrightarrow>
      snd (snd (visitors req g dbo now rows)) = [Geo_get (client_ip req)]) \<and>
   (geo_unsuccessful g \<longrightarrow>
      (\<not> insert_err dbo \<longrightarrow>
         fst (snd (visitors req g dbo now rows)) =
           rows @ [\<lparr>ip = client_ip req,
                    user_agent = or_default (user_agent_header req) ''unknown'',
                    path = or_default (query_path req) ''/'',
                    country = Some ''Unknown'', city = Some ''Unknown''\<rparr>]) \<and>
      (db_ok dbo \<longrightarrow>
         (\<exists>b. fst (visitors req g dbo now rows) = Visitors_json b \<and>
              recentVisit b = (Some ''Unknown'', Some ''Unknown'', now))))"
proof -
  have skip: "snd (geo_lookup a g) = []" if "a = Some ''::1'' \<or> a = Some ''127.0.0.1''" for a
    using that by (auto simp: geo_lookup_def)
  have looked_up: "snd (geo_lookup a g) = [Geo_get a]"
    if "a \<noteq> Some ''::1'' \<and> a \<noteq> Some ''127.0.0.1''" for a
    using that by (auto simp: geo_lookup_def split: geo_outcome.splits option.splits)
  have unknown: "fst (geo_lookup a g) = (Some ''Unknown'', Some ''Unknown'')"
    if "geo_unsuccessful g" for a
    using that by (cases g rule: geo_unsuccessful.cases) (simp_all add: geo_lookup_def)
  have calls: "snd (snd (visitors req g dbo now rows)) = snd (geo_lookup (client_ip req) g)"
    by (simp add: visitors_def Let_def)
  have row: "fst (snd (visitors req g dbo now rows)) =
           rows @ [\<lparr>ip = client_ip req,
                    user_agent = or_default (user_agent_header req) ''unknown'',
                    path = or_default (query_path req) ''/'',
                    country = Some ''Unknown'', city = Some ''Unknown''\<rparr>]"
    if "geo_unsuccessful g" "\<not> insert_err dbo"
    using that unknown [of "client_ip req"] by (simp add: visitors_def Let_def)
  have shape: "\<exists>b. fst (visitors req g dbo now rows) = Visitors_json b \<and>
              recentVisit b = (Some ''Unknown'', Some ''Unknown'', now)"
    if "geo_unsuccessful g" "db_ok dbo"
    using that unknown [of "client_ip req"] by (simp add: visitors_def Let_def db_ok_def)
  from skip [of "client_ip req"] looked_up [of "client_ip req"] row shape show ?thesis
    unfolding calls by blast
qed

text \<open>
  A request from \<^verbatim>\<open>127.0.0.1\<close> makes no call; a request from \<^verbatim>\<open>::ffff:127.0.0.1\<close>
  makes one; a request from \<^verbatim>\<open>203.0.113.7\<close> whose lookup throws is recorded as
  \<^verbatim>\<open>Unknown\<close> and answered with the success shape.
\<close>

theorem geolocation_best_effort_witness:
  "snd (snd (visitors (request_from ''127.0.0.1'') (located_in ''Ghana'' ''Accra'') all_ok 5
     earlier_rows)) = [] \<and>
   snd (snd (visitors (request_from ''::ffff:127.0.0.1'') Geo_throws all_ok 5 earlier_rows)) =
     [Geo_get (Some ''::ffff:127.0.0.1'')] \<and>
   fst (snd (visitors (request_from ''203.0.113.7'') Geo_throws all_ok 5 earlier_rows)) =
     earlier_rows @ [unknown_row ''203.0.113.7''] \<and>
   fst (visitors (request_from ''203.0.113.7'') Geo_throws all_ok 5 earlier_rows) =
     Visitors_json \<lparr>totalViews = 5, uniqueVisitors = 3,
                    countries = [(''Ghana'', 2), (''Togo'', 1)],
                    recentVisit = (Some ''Unknown'', Some ''Unknown'', 5)\<rparr>"
proof -
  have lo: "client_ip (request_from ''127.0.0.1'') = Some ''127.0.0.1''"
    by (simp add: client_ip_def request_from_def)
  have mapped: "client_ip (request_from ''::ffff:127.0.0.1'') = Some ''::ffff:127.0.0.1''"
    by (simp add: client_ip_def request_from_def)
  have ok: "db_ok all_ok" "\<not> insert_err all_ok"
    by (simp_all add: db_ok_def all_ok_def)
  have un: "geo_unsuccessful Geo_throws" by simp
  from geolocation_best_effort
    [of "request_from ''127.0.0.1''" "located_in ''Ghana'' ''Accra''" all_ok 5 earlier_rows] lo
  have a: "snd (snd (visitors (request_from ''127.0.0.1'') (located_in ''Ghana'' ''Accra'')
      all_ok 5 earlier_rows)) = []"
    by simp
  from geolocation_best_effort
    [of "request_from ''::ffff:127.0.0.1''" Geo_throws all_ok 5 earlier_rows] mapped
  have m: "snd (snd (visitors (request_from ''::ffff:127.0.0.1'') Geo_throws all_ok 5
      earlier_rows)) = [Geo_get (Some ''::ffff:127.0.0.1'')]"
    by simp
  from geolocation_best_effort
    [of "request_from ''203.0.113.7''" Geo_throws all_ok 5 earlier_rows] un ok
  obtain b where b: "fst (snd (visitors (request_from ''203.0.113.7'') Geo_throws all_ok 5
      earlier_rows)) = earlier_rows @ [unknown_row ''203.0.113.7'']"
      "fst (visitors (request_from ''203.0.113.7'') Geo_throws all_ok 5 earlier_rows) =
        Visitors_json b"
      "recentVisit b = (Some ''Unknown'', Some ''Unknown'', 5)"
    by (auto simp: unknown_row_def request_from_def client_ip_def or_default_def)
  have "fst (visitors (request_from ''203.0.113.7'') Geo_throws all_ok 5 earlier_rows) =
     Visitors_json \<lparr>totalViews = 5, uniqueVisitors = 3,
                    countries = [(''Ghana'', 2), (''Togo'', 1)],
                    recentVisit = (Some ''Unknown'', Some ''Unknown'', 5)\<rparr>"
    by (simp add: visitors_def Let_def all_ok_def request_from_def client_ip_def or_default_def
        geo_lookup_def earlier_rows_def count_totalViews_def count_uniqueVisitors_def
        select_countries_def where_country_known_def group_by_country_def
        order_by_count_desc_def List.map_filter_def)
  with a m b show ?thesis by simp
qed

text \<open>
  C7 as stated fails. A connection from the local host to a dual-stack socket has the
  source address \<^verbatim>\<open>::ffff:127.0.0.1\<close>, and \<^verbatim>\<open>127.0.0.2\<close> is a loopback address too:
  neither is one of the two literals, so the handler makes the geolocation call for
  them.
\<close>

theorem loopback_lookup_counterexample:
  "client_ip (request_from ''::ffff:127.0.0.1'') = Some ''::ffff:127.0.0.1'' \<and>
   snd (snd (visitors (request_from ''::ffff:127.0.0.1'') (located_in ''Ghana'' ''Accra'')
     all_ok 5 earlier_rows)) = [Geo_get (Some ''::ffff:127.0.0.1'')] \<and>
   snd (snd (visitors (request_from ''127.0.0.2'') (located_in ''Ghana'' ''Accra'')
     all_ok 5 earlier_rows)) = [Geo_get (Some ''127.0.0.2'')]"
  by (simp add: visitors_def Let_def request_from_def client_ip_def geo_lookup_def
      located_in_def all_ok_def)

text \<open>
  C8. Whatever the table holds, \<open>uniqueVisitors\<close> is at most \<open>totalViews\<close> in a successful
  response: both are read from the same table, the one with the new row.
\<close>

theorem uniqueVisitors_le_totalViews:
  "visitors req g dbo now rows = (Visitors_json b, rows', calls) \<Longrightarrow>
     uniqueVisitors b \<le> totalViews b"
  using visitors_json_reads_new_table [of req g dbo now rows b rows' calls]
    count_unique_le_total [of rows']
  by simp

theorem uniqueVisitors_le_totalViews_witness:
  "visitors (request_from ''203.0.113.7'') Geo_throws all_ok 5 earlier_rows =
     (Visitors_json \<lparr>totalViews = 5, uniqueVisitors = 3,
                     countries = [(''Ghana'', 2), (''Togo'', 1)],
                     recentVisit = (Some ''Unknown'', Some ''Unknown'', 5)\<rparr>,
      earlier_rows @ [unknown_row ''203.0.113.7''], [Geo_get (Some ''203.0.113.7'')]) \<and>
   (3::nat) \<le> 5"
proof -
  have run: "visitors (request_from ''203.0.113.7'') Geo_throws all_ok 5 earlier_rows =
     (Visitors_json \<lparr>totalViews = 5, uniqueVisitors = 3,
                     countries = [(''Ghana'', 2), (''Togo'', 1)],
                     recentVisit = (Some ''Unknown'', Some ''Unknown'', 5)\<rparr>,
      earlier_rows @ [unknown_row ''203.0.113.7''], [Geo_get (Some ''203.0.113.7'')])"
    by (simp add: visitors_def Let_def all_ok_def request_from_def client_ip_def or_default_def
        geo_lookup_def earlier_rows_def count_totalViews_def count_uniqueVisitors_def
        select_countries_def where_country_known_def group_by_country_def
        order_by_count_desc_def List.map_filter_def unknown_row_def)
  from uniqueVisitors_le_totalViews [OF run] run show ?thesis by simp
qed

section \<open>The cache handlers\<close>

text \<open>Each handler has three paths: served from the cache, fetched, and upstream failure.\<close>

lemma github_stats_hit:
  "cache_followers c = Some d \<Longrightarrow> now - lastUpdated c < CACHE_DURATION \<Longrightarrow>
     github_stats c now now' userRes reposRes = (Stats_json (d\<lparr>cached := True\<rparr>), c, [])"
  by (simp add: github_stats_def)

lemma github_stats_fetch:
  "cache_followers c = None \<or> \<not> now - lastUpdated c < CACHE_DURATION \<Longrightarrow>
     github_stats c now now' (Some u) (Some rs) =
       (Stats_json (stats_of u rs),
        c\<lparr>cache_followers := Some (stats_of u rs), lastUpdated := now'\<rparr>,
        [Github_user, Github_repos_100])"
  by (auto simp: github_stats_def Let_def)

lemma github_stats_calls:
  "cache_followers c = None \<or> \<not> now - lastUpdated c < CACHE_DURATION \<Longrightarrow>
     snd (snd (github_stats c now now' userRes reposRes)) = [Github_user, Github_repos_100]"
  by (auto simp: github_stats_def Let_def split: option.splits)

lemma github_stats_failure:
  "cache_followers c = None \<or> \<not> now - lastUpdated c < CACHE_DURATION \<Longrightarrow>
   userRes = None \<or> reposRes = None \<Longrightarrow>
     github_stats c now now' userRes reposRes =
       (case cache_followers c of
          Some d \<Rightarrow> Stats_json (d\<lparr>cached := True, error := Some ''Using cached data''\<rparr>)
        | None \<Rightarrow> Status_500 ''GitHub API error'',
        c, [Github_user, Github_repos_100])"
  by (auto simp: github_stats_def Let_def split: option.splits)

lemma github_repos_hit:
  "cache_repos c = Some rs \<Longrightarrow> now - lastUpdated c < CACHE_DURATION \<Longrightarrow>
     github_repos c now now' recentRes = (Repos_json rs True, c, [])"
  by (simp add: github_repos_def)

lemma github_repos_fetch:
  "cache_repos c = None \<or> \<not> now - lastUpdated c < CACHE_DURATION \<Longrightarrow>
     github_repos c now now' (Some rs) =
       (Repos_json (map repo_view rs) False,
        c\<lparr>cache_repos := Some (map repo_view rs), lastUpdated := now'\<rparr>,
        [Github_repos_updated_10])"
  by (auto simp: github_repos_def Let_def)

lemma github_repos_failure:
  "cache_repos c = None \<or> \<not> now - lastUpdated c < CACHE_DURATION \<Longrightarrow>
     github_repos c now now' None =
       (case cache_repos c of Some rs \<Rightarrow> Repos_json rs True | None \<Rightarrow> Repos_json [] False,
        c, [Github_repos_updated_10])"
  by (auto simp: github_repos_def Let_def split: option.splits)

lemma github_activity_hit:
  "cache_activity c = Some a \<Longrightarrow> now - lastUpdated c < CACHE_DURATION \<Longrightarrow>
     github_activity c now now' commitsRes = (Activity_json a True, c, [])"
  by (simp add: github_activity_def)

lemma github_activity_fetch:
  "cache_activity c = None \<or> \<not> now - lastUpdated c < CACHE_DURATION \<Longrightarrow>
     github_activity c now now' (Some evs) =
       (Activity_json (activity_of evs) False,
        c\<lparr>cache_activity := Some (activity_of evs), lastUpdated := now'\<rparr>,
        [Github_events_100])"
  by (auto simp: github_activity_def Let_def)

lemma github_activity_failure:
  "cache_activity c = None \<or> \<not> now - lastUpdated c < CACHE_DURATION \<Longrightarrow>
     github_activity c now now' None = (Activity_json [] False, c, [Github_events_100])"
  by (auto simp: github_activity_def Let_def split: option.splits)

section \<open>Claims about the cache\<close>

text \<open>
  C1. A request to \<^verbatim>\<open>/api/github/stats\<close> that finds the cache cold or stale and whose
  two upstream calls succeed answers a payload \<open>d\<close>, stores it and sets \<open>lastUpdated\<close> to
  the time \<open>t1\<close> of the store. On the cache it leaves, a request made at a time \<open>now\<close>
  with \<open>now - t1 < 300000\<close> answers \<open>d\<close> with \<open>cached\<close> set to true, changes nothing and
  calls nothing, and a request made when \<open>300000 \<le> now - t1\<close> makes the two upstream
  calls again. The same holds in every later state of the cache that still holds \<open>d\<close>,
  with its \<open>lastUpdated\<close> in the place of \<open>t1\<close>; and when the two new calls succeed, the
  answer is the payload computed from them.
\<close>

theorem stats_cache_ttl:
  assumes miss: "cache_followers c0 = None \<or> \<not> t0 - lastUpdated c0 < 300000"
    and first: "github_stats c0 t0 t1 (Some u) (Some rs) = (resp, c1, calls)"
  shows "\<exists>d. resp = Stats_json d \<and> cache_followers c1 = Some d \<and> lastUpdated c1 = t1 \<and>
           calls = [Github_user, Github_repos_100] \<and>
           (\<forall>now now' userRes reposRes.
              (now - t1 < 300000 \<longrightarrow>
                 github_stats c1 now now' userRes reposRes =
                   (Stats_json (d\<lparr>cached := True\<rparr>), c1, [])) \<and>
              (300000 \<le> now - t1 \<longrightarrow>
                 snd (snd (github_stats c1 now now' userRes reposRes)) =
                   [Github_user, Github_repos_100])) \<and>
           (\<forall>c now now' userRes reposRes.
              cache_followers c = Some d \<longrightarrow>
                (now - lastUpdated c < 300000 \<longrightarrow>
                   github_stats c now now' userRes reposRes =
                     (Stats_json (d\<lparr>cached := True\<rparr>), c, [])) \<and>
                (300000 \<le> now - lastUpdated c \<longrightarrow>
                   snd (snd (github_stats c now now' userRes reposRes)) =
                     [Github_user, Github_repos_100] \<and>
                   (\<forall>u' rs'. fst (github_stats c now now' (Some u') (Some rs')) =
                      Stats_json (stats_of u' rs'))))"
proof -
  from miss have "cache_followers c0 = None \<or> \<not> t0 - lastUpdated c0 < CACHE_DURATION"
    by (simp add: CACHE_DURATION_def)
  from github_stats_fetch [OF this, of t1 u rs] first
  have r: "resp = Stats_json (stats_of u rs)"
    and c: "c1 = c0\<lparr>cache_followers := Some (stats_of u rs), lastUpdated := t1\<rparr>"
    and k: "calls = [Github_user, Github_repos_100]"
    by auto
  from c have held: "cache_followers c1 = Some (stats_of u rs)" and stamp: "lastUpdated c1 = t1"
    by simp_all
  have later: "\<forall>c now now' userRes reposRes.
          cache_followers c = Some (stats_of u rs) \<longrightarrow>
            (now - lastUpdated c < 300000 \<longrightarrow>
               github_stats c now now' userRes reposRes =
                 (Stats_json ((stats_of u rs)\<lparr>cached := True\<rparr>), c, [])) \<and>
            (300000 \<le> now - lastUpdated c \<longrightarrow>
               snd (snd (github_stats c now now' userRes reposRes)) =
                 [Github_user, Github_repos_100] \<and>
               (\<forall>u' rs'. fst (github_stats c now now' (Some u') (Some rs')) =
                  Stats_json (stats_of u' rs')))"
    using github_stats_hit github_stats_calls github_stats_fetch
    by (simp add: CACHE_DURATION_def)
  have window: "\<forall>now now' userRes reposRes.
          (now - t1 < 300000 \<longrightarrow>
             github_stats c1 now now' userRes reposRes =
               (Stats_json ((stats_of u rs)\<lparr>cached := True\<rparr>), c1, [])) \<and>
          (300000 \<le> now - t1 \<longrightarrow>
             snd (snd (github_stats c1 now now' userRes reposRes)) =
               [Github_user, Github_repos_100])"
    using later [rule_format, OF held] unfolding stamp by blast
  from r held stamp k window later show ?thesis by blast
qed

text \<open>
  A cache whose payloads were written at time 1000 is refreshed at 500050: requests at
  510000 and at 800049 are answered from it, a request at 800050 goes upstream. The same
  from the cache of a process that has just started.
\<close>

theorem stats_cache_ttl_witness:
  "github_stats full_cache 500000 500050 (Some octocat) (Some []) =
     (Stats_json (stats_of octocat []), refreshed_cache, [Github_user, Github_repos_100]) \<and>
   lastUpdated refreshed_cache = 500050 \<and>
   github_stats refreshed_cache 510000 510040 None None =
     (Stats_json ((stats_of octocat [])\<lparr>cached := True\<rparr>), refreshed_cache, []) \<and>
   github_stats refreshed_cache 800049 800100 None None =
     (Stats_json ((stats_of octocat [])\<lparr>cached := True\<rparr>), refreshed_cache, []) \<and>
   snd (snd (github_stats refreshed_cache 800050 800100 None None)) =
     [Github_user, Github_repos_100] \<and>
   github_stats initial_cache 1700000000000 1700000000250 (Some octocat) (Some some_repos) =
     (Stats_json first_stats, warm_stats_cache, [Github_user, Github_repos_100]) \<and>
   github_stats warm_stats_cache 1700000300249 1700000300300 None None =
     (Stats_json (first_stats\<lparr>cached := True\<rparr>), warm_stats_cache, []) \<and>
   snd (snd (github_stats warm_stats_cache 1700000300250 1700000300300 None None)) =
     [Github_user, Github_repos_100] \<and>
   fst (github_stats warm_stats_cache 1700000300250 1700000300300 (Some octocat) (Some [])) =
     Stats_json (stats_of octocat [])"
proof -
  have stale: "cache_followers full_cache = None \<or> \<not> 500000 - lastUpdated full_cache < 300000"
    by (simp add: full_cache_def)
  have refresh: "github_stats full_cache 500000 500050 (Some octocat) (Some []) =
      (Stats_json (stats_of octocat []), refreshed_cache, [Github_user, Github_repos_100])"
    by (simp add: github_stats_def Let_def full_cache_def refreshed_cache_def
        CACHE_DURATION_def)
  from stats_cache_ttl [OF stale refresh]
  obtain e where e: "Stats_json (stats_of octocat []) = Stats_json e"
    and stamp: "lastUpdated refreshed_cache = 500050"
    and window: "\<forall>now now' userRes reposRes.
          (now - 500050 < 300000 \<longrightarrow>
             github_stats refreshed_cache now now' userRes reposRes =
               (Stats_json (e\<lparr>cached := True\<rparr>), refreshed_cache, [])) \<and>
          (300000 \<le> now - 500050 \<longrightarrow>
             snd (snd (github_stats refreshed_cache now now' userRes reposRes)) =
               [Github_user, Github_repos_100])"
    by blast
  from e have e': "e = stats_of octocat []" by simp
  from window [rule_format, of 510000 510040 None None]
    window [rule_format, of 800049 800100 None None]
    window [rule_format, of 800050 800100 None None]
  have warm_start:
    "github_stats refreshed_cache 510000 510040 None None =
       (Stats_json ((stats_of octocat [])\<lparr>cached := True\<rparr>), refreshed_cache, [])"
    "github_stats refreshed_cache 800049 800100 None None =
       (Stats_json ((stats_of octocat [])\<lparr>cached := True\<rparr>), refreshed_cache, [])"
    "snd (snd (github_stats refreshed_cache 800050 800100 None None)) =
       [Github_user, Github_repos_100]"
    by (simp_all add: e')
  have miss: "cache_followers initial_cache = None \<or>
      \<not> 1700000000000 - lastUpdated initial_cache < 300000"
    by (simp add: initial_cache_def)
  have first: "github_stats initial_cache 1700000000000 1700000000250 (Some octocat)
      (Some some_repos) =
      (Stats_json first_stats, warm_stats_cache, [Github_user, Github_repos_100])"
    by (simp add: github_stats_def Let_def initial_cache_def warm_stats_cache_def
        first_stats_def CACHE_DURATION_def)
  from stats_cache_ttl [OF miss first]
  obtain d where d: "Stats_json first_stats = Stats_json d"
    and later: "\<forall>c now now' userRes reposRes.
          cache_followers c = Some d \<longrightarrow>
            (now - lastUpdated c < 300000 \<longrightarrow>
               github_stats c now now' userRes reposRes =
                 (Stats_json (d\<lparr>cached := True\<rparr>), c, [])) \<and>
            (300000 \<le> now - lastUpdated c \<longrightarrow>
               snd (snd (github_stats c now now' userRes reposRes)) =
                 [Github_user, Github_repos_100] \<and>
               (\<forall>u' rs'. fst (github_stats c now now' (Some u') (Some rs')) =
                  Stats_json (stats_of u' rs')))"
    by blast
  from d have d': "d = first_stats" by simp
  have w: "cache_followers warm_stats_cache = Some first_stats"
    "lastUpdated warm_stats_cache = 1700000000250"
    by (simp_all add: warm_stats_cache_def initial_cache_def)
  from later [rule_format, of warm_stats_cache 1700000300249 1700000300300 None None]
    later [rule_format, of warm_stats_cache 1700000300250 1700000300300 None None]
  have cold_start:
    "github_stats warm_stats_cache 1700000300249 1700000300300 None None =
       (Stats_json (first_stats\<lparr>cached := True\<rparr>), warm_stats_cache, [])"
    "snd (snd (github_stats warm_stats_cache 1700000300250 1700000300300 None None)) =
       [Github_user, Github_repos_100]"
    "fst (github_stats warm_stats_cache 1700000300250 1700000300300 (Some octocat) (Some [])) =
       Stats_json (stats_of octocat [])"
    by (simp_all add: d' w)
  from refresh stamp warm_start first cold_start show ?thesis by simp
qed

text \<open>
  C2 at the input where the code departs from it. The cache holds an activity list from
  an earlier fetch and has gone stale; the events request fails. The handlers of
  \<^verbatim>\<open>/api/github/stats\<close> and \<^verbatim>\<open>/api/github/repos\<close> answer their cached payload in this
  situation; the handler of \<^verbatim>\<open>/api/github/activity\<close> answers the empty list with
  \<open>cached\<close> false.
\<close>

theorem activity_failure_ignores_cache:
  "cache_activity stale_activity_cache = Some pushed \<and> pushed \<noteq> [] \<and>
   github_activity stale_activity_cache 400000 400100 None =
     (Activity_json [] False, stale_activity_cache, [Github_events_100])"
  by (simp add: stale_activity_cache_def initial_cache_def pushed_def activity_of_def
      push_event_def github_activity_def CACHE_DURATION_def)

text \<open>
  C6. The three handlers test and write the one field \<open>lastUpdated\<close>. A fetch that
  succeeds on any of the three endpoints at time \<open>now'\<close> sets \<open>lastUpdated\<close> to \<open>now'\<close>,
  and from then on a request for either of the other two kinds made at a time \<open>t\<close> with
  \<open>t - now' < 300000\<close> is answered from the payload the cache held for that kind,
  however old it is, without an upstream call.
\<close>

theorem shared_lastUpdated:
  assumes within: "t - now' < 300000"
  shows
    "(cache_followers c = None \<or> \<not> now - lastUpdated c < 300000 \<longrightarrow>
        (\<exists>c1. github_stats c now now' (Some u) (Some rs) =
                 (Stats_json (stats_of u rs), c1, [Github_user, Github_repos_100]) \<and>
              lastUpdated c1 = now' \<and>
              (\<forall>p. cache_repos c = Some p \<longrightarrow>
                 github_repos c1 t t' recentRes = (Repos_json p True, c1, [])) \<and>
              (\<forall>a. cache_activity c = Some a \<longrightarrow>
                 github_activity c1 t t' commitsRes = (Activity_json a True, c1, [])))) \<and>
     (cache_repos c = None \<or> \<not> now - lastUpdated c < 300000 \<longrightarrow>
        (\<exists>c1. github_repos c now now' (Some rs) =
                 (Repos_json (map repo_view rs) False, c1, [Github_repos_updated_10]) \<and>
              lastUpdated c1 = now' \<and>
              (\<forall>d. cache_followers c = Some d \<longrightarrow>
                 github_stats c1 t t' userRes reposRes =
                   (Stats_json (d\<lparr>cached := True\<rparr>), c1, [])) \<and>
              (\<forall>a. cache_activity c = Some a \<longrightarrow>
                 github_activity c1 t t' commitsRes = (Activity_json a True, c1, [])))) \<and>
     (cache_activity c = None \<or> \<not> now - lastUpdated c < 300000 \<longrightarrow>
        (\<exists>c1. github_activity c now now' (Some evs) =
                 (Activity_json (activity_of evs) False, c1, [Github_events_100]) \<and>
              lastUpdated c1 = now' \<and>
              (\<forall>d. cache_followers c = Some d \<longrightarrow>
                 github_stats c1 t t' userRes reposRes =
                   (Stats_json (d\<lparr>cached := True\<rparr>), c1, [])) \<and>
              (\<forall>p. cache_repos c = Some p \<longrightarrow>
                 github_repos c1 t t' recentRes = (Repos_json p True, c1, []))))"
proof -
  from within have w: "t - now' < CACHE_DURATION"
    by (simp add: CACHE_DURATION_def)
  have after_stats: "\<exists>c1. github_stats c now now' (Some u) (Some rs) =
                 (Stats_json (stats_of u rs), c1, [Github_user, Github_repos_100]) \<and>
              lastUpdated c1 = now' \<and>
              (\<forall>p. cache_repos c = Some p \<longrightarrow>
                 github_repos c1 t t' recentRes = (Repos_json p True, c1, [])) \<and>
              (\<forall>a. cache_activity c = Some a \<longrightarrow>
                 github_activity c1 t t' commitsRes = (Activity_json a True, c1, []))"
    if m: "cache_followers c = None \<or> \<not> now - lastUpdated c < CACHE_DURATION"
    using w
    by (intro exI [of _ "c\<lparr>cache_followers := Some (stats_of u rs), lastUpdated := now'\<rparr>"])
      (simp add: github_stats_fetch [OF m] github_repos_hit github_activity_hit)
  have after_repos: "\<exists>c1. github_repos c now now' (Some rs) =
                 (Repos_json (map repo_view rs) False, c1, [Github_repos_updated_10]) \<and>
              lastUpdated c1 = now' \<and>
              (\<forall>d. cache_followers c = Some d \<longrightarrow>
                 github_stats c1 t t' userRes reposRes =
                   (Stats_json (d\<lparr>cached := True\<rparr>), c1, [])) \<and>
              (\<forall>a. cache_activity c = Some a \<longrightarrow>
                 github_activity c1 t t' commitsRes = (Activity_json a True, c1, []))"
    if m: "cache_repos c = None \<or> \<not> now - lastUpdated c < CACHE_DURATION"
    using w
    by (intro exI [of _ "c\<lparr>cache_repos := Some (map repo_view rs), lastUpdated := now'\<rparr>"])
      (simp add: github_repos_fetch [OF m] github_stats_hit github_activity_hit)
  have after_activity: "\<exists>c1. github_activity c now now' (Some evs) =
                 (Activity_json (activity_of evs) False, c1, [Github_events_100]) \<and>
              lastUpdated c1 = now' \<and>
              (\<forall>d. cache_followers c = Some d \<longrightarrow>
                 github_stats c1 t t' userRes reposRes =
                   (Stats_json (d\<lparr>cached := True\<rparr>), c1, [])) \<and>
              (\<forall>p. cache_repos c = Some p \<longrightarrow>
                 github_repos c1 t t' recentRes = (Repos_json p True, c1, []))"
    if m: "cache_activity c = None \<or> \<not> now - lastUpdated c < CACHE_DURATION"
    using w
    by (intro exI [of _ "c\<lparr>cache_activity := Some (activity_of evs), lastUpdated := now'\<rparr>"])
      (simp add: github_activity_fetch [OF m] github_stats_hit github_repos_hit)
  from after_stats after_repos after_activity show ?thesis
    unfolding CACHE_DURATION_def by blast
qed

text \<open>
  A cache whose three payloads are 499 seconds old: a fetch on one endpoint at
  \<open>500050\<close> makes the two other kinds fresh until \<open>800050\<close>.
\<close>

theorem shared_lastUpdated_witness:
  "github_repos (full_cache\<lparr>cache_followers := Some (stats_of octocat some_repos),
        lastUpdated := 500050\<rparr>) 800049 800100 None =
     (Repos_json [] True,
      full_cache\<lparr>cache_followers := Some (stats_of octocat some_repos),
        lastUpdated := 500050\<rparr>, []) \<and>
   github_stats (full_cache\<lparr>cache_repos := Some (map repo_view some_repos),
        lastUpdated := 500050\<rparr>) 800049 800100 None None =
     (Stats_json (first_stats\<lparr>cached := True\<rparr>),
      full_cache\<lparr>cache_repos := Some (map repo_view some_repos),
        lastUpdated := 500050\<rparr>, []) \<and>
   github_stats (full_cache\<lparr>cache_activity := Some (activity_of [push_event]),
        lastUpdated := 500050\<rparr>) 800049 800100 None None =
     (Stats_json (first_stats\<lparr>cached := True\<rparr>),
      full_cache\<lparr>cache_activity := Some (activity_of [push_event]),
        lastUpdated := 500050\<rparr>, [])"
proof -
  have within: "(800049::int) - 500050 < 300000" by simp
  have stale: "\<not> (500000::int) - lastUpdated full_cache < 300000"
    by (simp add: full_cache_def)
  have held: "cache_followers full_cache = Some first_stats"
    "cache_repos full_cache = Some []" "cache_activity full_cache = Some pushed"
    by (simp_all add: full_cache_def)
  note inst = shared_lastUpdated [OF within, where c = full_cache and now = 500000
      and u = octocat and rs = some_repos and t' = 800100 and recentRes = None
      and commitsRes = None and userRes = None and reposRes = None and evs = "[push_event]"]
  have fs: "github_stats full_cache 500000 500050 (Some octocat) (Some some_repos) =
      (Stats_json (stats_of octocat some_repos),
       full_cache\<lparr>cache_followers := Some (stats_of octocat some_repos),
         lastUpdated := 500050\<rparr>,
       [Github_user, Github_repos_100])"
    by (simp add: github_stats_def Let_def full_cache_def CACHE_DURATION_def)
  have fr: "github_repos full_cache 500000 500050 (Some some_repos) =
      (Repos_json (map repo_view some_repos) False,
       full_cache\<lparr>cache_repos := Some (map repo_view some_repos),
         lastUpdated := 500050\<rparr>,
       [Github_repos_updated_10])"
    by (simp add: github_repos_def Let_def full_cache_def CACHE_DURATION_def)
  have fa: "github_activity full_cache 500000 500050 (Some [push_event]) =
      (Activity_json (activity_of [push_event]) False,
       full_cache\<lparr>cache_activity := Some (activity_of [push_event]),
         lastUpdated := 500050\<rparr>,
       [Github_events_100])"
    by (simp add: github_activity_def Let_def full_cache_def CACHE_DURATION_def)
  from inst stale held show ?thesis
    by (simp add: fs fr fa)
qed

text \<open>
  C9. When a handler finds its payload present and fresh, it answers that payload with
  \<open>cached\<close> true, makes no upstream call and returns the cache as it was: the three
  payloads and \<open>lastUpdated\<close> are unchanged.
\<close>

theorem fresh_cache_read_only:
  "(cache_followers c = Some d \<and> now - lastUpdated c < 300000 \<longrightarrow>
      github_stats c now now' userRes reposRes = (Stats_json (d\<lparr>cached := True\<rparr>), c, [])) \<and>
   (cache_repos c = Some rs \<and> now - lastUpdated c < 300000 \<longrightarrow>
      github_repos c now now' recentRes = (Repos_json rs True, c, [])) \<and>
   (cache_activity c = Some a \<and> now - lastUpdated c < 300000 \<longrightarrow>
      github_activity c now now' commitsRes = (Activity_json a True, c, []))"
  using github_stats_hit github_repos_hit github_activity_hit
  by (simp add: CACHE_DURATION_def)

theorem fresh_cache_read_only_witness:
  "github_stats full_cache 300999 301050 None None =
     (Stats_json (first_stats\<lparr>cached := True\<rparr>), full_cache, []) \<and>
   github_repos full_cache 300999 301050 None = (Repos_json [] True, full_cache, []) \<and>
   github_activity full_cache 300999 301050 None =
     (Activity_json pushed True, full_cache, [])"
  using fresh_cache_read_only [of full_cache first_stats 300999 301050 None None "[]" None
      pushed None]
  by (simp add: full_cache_def)

section \<open>The language histogram\<close>

lemma foldl_plus: "foldl (\<lambda>sum r. sum + f r) (a::int) rs = a + sum_list (map f rs)"
  by (induction rs arbitrary: a) simp_all

lemma sum_stargazers_insert:
  "sum_stargazers (rs1 @ r # rs2) = sum_stargazers (rs1 @ rs2) + stargazers_count r"
  by (simp add: sum_stargazers_def foldl_plus)

lemma sum_forks_insert:
  "sum_forks (rs1 @ r # rs2) = sum_forks (rs1 @ rs2) + forks_count r"
  by (simp add: sum_forks_def foldl_plus)

lemma language_counts_insert_null:
  "language r = None \<Longrightarrow> language_counts (rs1 @ r # rs2) = language_counts (rs1 @ rs2)"
  by (simp add: language_counts_def count_language_def)

lemma map_of_incr_key:
  "map_of (incr_key k gs) =
     (map_of gs)(k \<mapsto> (case map_of gs k of None \<Rightarrow> 1 | Some n \<Rightarrow> Suc n))"
  by (induction k gs rule: incr_key.induct) (auto simp: fun_eq_iff)

lemma distinct_keys_incr_key:
  "distinct (map fst gs) \<Longrightarrow> distinct (map fst (incr_key k gs))"
  by (simp add: keys_incr_key)

lemma tally_count_language:
  "tally (count_language r gs) l =
     tally gs l + (if language r = Some l \<and> l \<noteq> [] then 1 else 0)"
  by (auto simp: tally_def count_language_def map_of_incr_key split: option.splits)

lemma tally_fold:
  "tally (fold count_language rs gs) l =
     tally gs l + (if l = [] then 0 else length (filter (\<lambda>r. language r = Some l) rs))"
  by (induction rs arbitrary: gs) (auto simp: tally_count_language)

lemma distinct_keys_count_language:
  "distinct (map fst gs) \<Longrightarrow> distinct (map fst (count_language r gs))"
  by (auto simp: count_language_def distinct_keys_incr_key split: option.splits)

lemma distinct_keys_fold:
  "distinct (map fst gs) \<Longrightarrow> distinct (map fst (fold count_language rs gs))"
  by (induction rs arbitrary: gs) (auto simp: distinct_keys_count_language)

lemma keys_nonempty_count_language:
  "[] \<notin> fst ` set gs \<Longrightarrow> [] \<notin> fst ` set (count_language r gs)"
  by (auto simp: count_language_def fst_set_incr_key split: option.splits)

lemma keys_nonempty_fold:
  "[] \<notin> fst ` set gs \<Longrightarrow> [] \<notin> fst ` set (fold count_language rs gs)"
  by (induction rs arbitrary: gs) (auto simp: keys_nonempty_count_language simp del: image_iff)

text \<open>An entry of the histogram counts the repositories that have its language.\<close>

lemma language_counts_entry:
  assumes "(l, n) \<in> set (language_counts rs)"
  shows "n = length (filter (\<lambda>r. language r = Some l) rs)"
proof -
  have d: "distinct (map fst (language_counts rs))"
    unfolding language_counts_def by (rule distinct_keys_fold) simp
  have ne: "l \<noteq> []"
    using keys_nonempty_fold [of "[]" rs] assms
    by (force simp: language_counts_def)
  from d assms have "map_of (language_counts rs) l = Some n" by simp
  then have "tally (language_counts rs) l = n" by (simp add: tally_def)
  moreover have "tally [] l = 0" by (simp add: tally_def)
  ultimately show ?thesis
    using ne by (simp add: language_counts_def tally_fold)
qed

lemma top_languages_subset: "set (top_languages rs) \<subseteq> set (language_counts rs)"
  unfolding top_languages_def by (metis set_sort set_take_subset)

text \<open>
  C10. A repository whose \<open>language\<close> is null can be taken out of the list, wherever it
  stands, without changing the \<open>languages\<close> list of the payload, while \<open>totalStars\<close> and
  \<open>totalForks\<close> lose exactly its stars and forks. And every entry of \<open>languages\<close> is the
  number of repositories whose \<open>language\<close> is that name, so only repositories with a
  language are counted.
\<close>

theorem null_language_not_counted:
  "(language r = None \<longrightarrow>
      languages (stats_of u (rs1 @ r # rs2)) = languages (stats_of u (rs1 @ rs2)) \<and>
      totalStars (stats_of u (rs1 @ r # rs2)) =
        totalStars (stats_of u (rs1 @ rs2)) + stargazers_count r \<and>
      totalForks (stats_of u (rs1 @ r # rs2)) =
        totalForks (stats_of u (rs1 @ rs2)) + forks_count r) \<and>
   (\<forall>e \<in> set (languages (stats_of u rs)).
      snd e = length (filter (\<lambda>r. language r = Some (fst e)) rs))"
proof (rule conjI)
  show "language r = None \<longrightarrow>
      languages (stats_of u (rs1 @ r # rs2)) = languages (stats_of u (rs1 @ rs2)) \<and>
      totalStars (stats_of u (rs1 @ r # rs2)) =
        totalStars (stats_of u (rs1 @ rs2)) + stargazers_count r \<and>
      totalForks (stats_of u (rs1 @ r # rs2)) =
        totalForks (stats_of u (rs1 @ rs2)) + forks_count r"
    by (simp add: stats_of_def top_languages_def language_counts_insert_null
        sum_stargazers_insert sum_forks_insert)
next
  have shown: "languages (stats_of u rs) = top_languages rs"
    by (simp add: stats_of_def)
  have "snd e = length (filter (\<lambda>r. language r = Some (fst e)) rs)"
    if "e \<in> set (top_languages rs)" for e
  proof -
    from that top_languages_subset have "(fst e, snd e) \<in> set (language_counts rs)" by auto
    then show ?thesis by (rule language_counts_entry)
  qed
  then show "\<forall>e \<in> set (languages (stats_of u rs)).
      snd e = length (filter (\<lambda>r. language r = Some (fst e)) rs)"
    unfolding shown by blast
qed

theorem null_language_not_counted_witness:
  "language (repo_with ''notes'' None 2 7) = None \<and>
   languages (stats_of octocat some_repos) = [(''JavaScript'', 2), (''Python'', 1)] \<and>
   languages (stats_of octocat
       ([repo_with ''site'' (Some ''JavaScript'') 5 1] @
        [repo_with ''bot'' (Some ''JavaScript'') 1 0, repo_with ''tool'' (Some ''Python'') 0 0])) =
     [(''JavaScript'', 2), (''Python'', 1)] \<and>
   totalStars (stats_of octocat some_repos) = 6 + 2 \<and>
   totalForks (stats_of octocat some_repos) = 1 + 7 \<and>
   length (filter (\<lambda>r. language r = Some ''JavaScript'') some_repos) = 2"
proof -
  have null: "language (repo_with ''notes'' None 2 7) = None"
    by (simp add: repo_with_def)
  have split: "some_repos = [repo_with ''site'' (Some ''JavaScript'') 5 1] @
      repo_with ''notes'' None 2 7 #
      [repo_with ''bot'' (Some ''JavaScript'') 1 0, repo_with ''tool'' (Some ''Python'') 0 0]"
    by (simp add: some_repos_def)
  have langs: "languages (stats_of octocat some_repos) = [(''JavaScript'', 2), (''Python'', 1)]"
    by (simp add: stats_of_def top_languages_def language_counts_def count_language_def
        some_repos_def repo_with_def)
  have rest: "totalStars (stats_of octocat ([repo_with ''site'' (Some ''JavaScript'') 5 1] @
        [repo_with ''bot'' (Some ''JavaScript'') 1 0, repo_with ''tool'' (Some ''Python'') 0 0])) = 6"
    "totalForks (stats_of octocat ([repo_with ''site'' (Some ''JavaScript'') 5 1] @
        [repo_with ''bot'' (Some ''JavaScript'') 1 0, repo_with ''tool'' (Some ''Python'') 0 0])) = 1"
    by (simp_all add: stats_of_def sum_stargazers_def sum_forks_def repo_with_def)
  note inst = null_language_not_counted [of "repo_with ''notes'' None 2 7" octocat
      "[repo_with ''site'' (Some ''JavaScript'') 5 1]"
      "[repo_with ''bot'' (Some ''JavaScript'') 1 0, repo_with ''tool'' (Some ''Python'') 0 0]"
      some_repos]
  from inst null have a: "languages (stats_of octocat some_repos) =
      languages (stats_of octocat ([repo_with ''site'' (Some ''JavaScript'') 5 1] @
        [repo_with ''bot'' (Some ''JavaScript'') 1 0, repo_with ''tool'' (Some ''Python'') 0 0]))"
    and b: "totalStars (stats_of octocat some_repos) = 6 + 2"
    and c: "totalForks (stats_of octocat some_repos) = 1 + 7"
    unfolding split [symmetric] rest by (simp_all add: repo_with_def)
  from inst langs have "snd (''JavaScript'', 2::nat) =
      length (filter (\<lambda>r. language r = Some (fst (''JavaScript'', 2::nat))) some_repos)"
    by simp
  with null langs a b c show ?thesis by simp
qed

section \<open>The quotes\<close>

lemma distinct_quotes: "distinct quotes"
  by (simp add: quotes_def)

lemma length_quotes: "length quotes = 10"
  by (simp add: quotes_def)

lemma shuffle_facts:
  assumes "is_shuffle shuffled"
  shows "set shuffled = set quotes" "distinct shuffled" "length shuffled = 10"
proof -
  from assms have m: "mset shuffled = mset quotes" by (simp add: is_shuffle_def)
  show "set shuffled = set quotes" using m by (rule mset_eq_setD)
  show "distinct shuffled" using m distinct_quotes by (metis mset_eq_imp_distinct_iff)
  show "length shuffled = 10" using m length_quotes by (metis mset_eq_length)
qed

text \<open>
  What the handler does for the parameters it clamps. Whatever the shuffle and the
  parameter, the strings of the response are quotes of the fixed list and no string
  appears twice. When the parameter is an integer \<open>n\<close> of at least 1, the response has
  exactly \<open>min n 5\<close> strings; when it is 0 or does not parse, it has exactly one.
\<close>

lemma api_quotes_clamped:
  assumes "is_shuffle shuffled"
  shows "set (api_quotes parsed shuffled) \<subseteq> set quotes \<and>
         distinct (api_quotes parsed shuffled) \<and>
         (1 \<le> n \<longrightarrow> int (length (api_quotes (Some n) shuffled)) = min n 5) \<and>
         length (api_quotes (Some 0) shuffled) = 1 \<and>
         length (api_quotes None shuffled) = 1"
proof -
  note f = shuffle_facts [OF assms]
  have "set (api_quotes parsed shuffled) \<subseteq> set shuffled"
    by (simp add: api_quotes_def slice0_def Let_def set_take_subset)
  with f(1) have sub: "set (api_quotes parsed shuffled) \<subseteq> set quotes"
    by simp
  have dist: "distinct (api_quotes parsed shuffled)"
    using f(2) by (simp add: api_quotes_def slice0_def Let_def)
  have len: "int (length (api_quotes (Some n) shuffled)) = min n 5" if "1 \<le> n"
    using that f(3) by (simp add: api_quotes_def slice0_def Let_def)
  have one: "length (api_quotes (Some 0) shuffled) = 1" "length (api_quotes None shuffled) = 1"
    using f(3) by (simp_all add: api_quotes_def slice0_def Let_def)
  from sub dist len one show ?thesis by simp
qed

text \<open>
  A negative parameter passes \<^verbatim>\<open>|| 1\<close> and \<^verbatim>\<open>Math.min(count, 5)\<close> unchanged and becomes
  the end of the slice, which then counts from the end of the array: whatever the
  shuffle, the response has \<open>10 + n\<close> strings for \<open>n\<close> from -9 to -1 and none for
  \<open>n \<le> -10\<close>.
\<close>

lemma api_quotes_below_zero:
  assumes "is_shuffle shuffled" and "n < 0"
  shows "int (length (api_quotes (Some n) shuffled)) = max (10 + n) 0"
  using shuffle_facts(3) [OF assms(1)] assms(2)
  by (simp add: api_quotes_def slice0_def Let_def)

text \<open>
  C4 at the inputs where the code departs from it. The handler bounds the parameter with
  \<^verbatim>\<open>|| 1\<close> from below and \<^verbatim>\<open>Math.min(count, 5)\<close> from above, and misses the negative
  integers: for \<open>count = -1\<close> it answers nine quotes, all but the last of the shuffled
  list, which is more than its own cap of 5, and for \<open>count = -10\<close> it answers none,
  which is fewer than 1.
\<close>

theorem api_quotes_negative_count:
  "is_shuffle quotes \<and>
   api_quotes (Some (- 1)) quotes = butlast quotes \<and>
   length (api_quotes (Some (- 1)) quotes) = 9 \<and>
   min (- 1) 5 < int (length (api_quotes (Some (- 1)) quotes)) \<and>
   5 < length (api_quotes (Some (- 1)) quotes) \<and>
   api_quotes (Some (- 10)) quotes = [] \<and>
   is_shuffle (rev quotes) \<and>
   length (api_quotes (Some (- 1)) (rev quotes)) = 9 \<and>
   api_quotes (Some (- 10)) (rev quotes) = []"
  by (simp add: is_shuffle_def api_quotes_def slice0_def Let_def length_quotes butlast_conv_take)

end
